theory Spec2Isabelle
  imports Main "HOL-Library.Sublist"
begin

section \<open>Python values used by the two programs\<close>

text \<open>
  A Python \<open>str\<close> is modelled as a \<open>string\<close>: one \<open>char\<close> per code point, so the model
  covers text whose code points are below 256. File contents (\<open>bytes\<close>) are \<open>string\<close>s too,
  one \<open>char\<close> per byte. Exceptions are values; \<open>str_of\<close> is Python's \<open>str(e)\<close>.
\<close>

datatype exn =
    ValueError string
  | IndexError string
  | AttributeError string
  | TypeError string
  | FileNotFoundError string
  | BinasciiError string
  | JSONDecodeError string
  | UpstreamError string
  | SystemExit nat

text \<open>\<open>str(n)\<close> for a natural number.\<close>

definition digit_chars :: string where
  "digit_chars = ''0123456789''"

fun show_nat :: "nat \<Rightarrow> string" where
  "show_nat n =
     (if n < 10 then [digit_chars ! n]
      else show_nat (n div 10) @ [digit_chars ! (n mod 10)])"

declare show_nat.simps [simp del]

fun str_of :: "exn \<Rightarrow> string" where
  "str_of (ValueError m) = m"
| "str_of (IndexError m) = m"
| "str_of (AttributeError m) = m"
| "str_of (TypeError m) = m"
| "str_of (FileNotFoundError m) = m"
| "str_of (BinasciiError m) = m"
| "str_of (JSONDecodeError m) = m"
| "str_of (UpstreamError m) = m"
| "str_of (SystemExit n) = show_nat n"

text \<open>A name between single quotes, as Python's messages print it.\<close>

definition quoted :: "string \<Rightarrow> string" where
  "quoted s = CHR 0x27 # s @ [CHR 0x27]"

text \<open>\<open>s.startswith(p)\<close>.\<close>

definition startswith :: "string \<Rightarrow> string \<Rightarrow> bool" where
  "startswith s p = (take (length p) s = p)"

text \<open>\<open>s.split(c, 1)\<close>: one piece when \<open>c\<close> does not occur, otherwise the text before the
  first \<open>c\<close> and the text after it.\<close>

definition split1 :: "char \<Rightarrow> string \<Rightarrow> string list" where
  "split1 c s =
     (if c \<in> set s
      then [takeWhile (\<lambda>x. x \<noteq> c) s, tl (dropWhile (\<lambda>x. x \<noteq> c) s)]
      else [s])"

text \<open>\<open>xs[i]\<close> for a non-negative index: Python raises \<open>IndexError\<close> out of range.\<close>

definition py_index :: "'a list \<Rightarrow> nat \<Rightarrow> exn + 'a" where
  "py_index xs i =
     (if i < length xs then Inr (xs ! i) else Inl (IndexError ''list index out of range''))"

text \<open>\<open>str.isspace\<close> on one code point below 256, and \<open>s.strip()\<close>.\<close>

definition py_isspace :: "char \<Rightarrow> bool" where
  "py_isspace c =
     (let n = (of_char c :: nat)
      in (9 \<le> n \<and> n \<le> 13) \<or> (28 \<le> n \<and> n \<le> 32) \<or> n = 133 \<or> n = 160)"

definition strip :: "string \<Rightarrow> string" where
  "strip s = rev (dropWhile py_isspace (rev (dropWhile py_isspace s)))"

text \<open>Truthiness of an optional string: \<open>None\<close> and \<open>''\<close> are false.\<close>

fun truthy :: "string option \<Rightarrow> bool" where
  "truthy None = False"
| "truthy (Some s) = (s \<noteq> [])"

section \<open>The model's response and the outbound request\<close>

text \<open>
  The hosted model's reply as the OpenAI client presents it: \<open>response.choices\<close>, each
  choice's \<open>message\<close> (which may be \<open>None\<close>), the message's \<open>content\<close> (which may be \<open>None\<close>)
  and its \<open>images\<close> attribute (\<open>None\<close> when the attribute is absent or \<open>None\<close>). A media item is
  the dictionary \<open>{"type": t, "image_url": {"url": u}}\<close>.
\<close>

record media_item =
  item_type :: string
  url :: string

record chat_message =
  content :: "string option"
  images :: "media_item list option"

record chat_choice =
  message :: "chat_message option"

record chat_response =
  choices :: "chat_choice list"

section \<open>app.py: the response extractor\<close>

text \<open>The \<open>for img in message.images\<close> loop of \<open>extract_image_from_response\<close>: the first
  item that passes the test decides, by \<open>break\<close>; \<open>data_url.split(',', 1)[1]\<close> raises when the
  URL has no comma.\<close>

fun scan_images :: "media_item list \<Rightarrow> exn + string option" where
  "scan_images [] = Inr None"
| "scan_images (img # rest) =
     (if item_type img = ''image_url'' \<and> startswith (url img) ''data:image''
      then (case py_index (split1 (CHR '','') (url img)) 1 of
              Inl e \<Rightarrow> Inl e
            | Inr image_data \<Rightarrow> Inr (Some image_data))
      else scan_images rest)"

definition extract_image_from_response ::
  "chat_response \<Rightarrow> exn + (string option \<times> string option)" where
  "extract_image_from_response response =
     (case choices response of
        [] \<Rightarrow> Inr (None, None)
      | c # _ \<Rightarrow>
          (case message c of
             None \<Rightarrow> Inr (None, None)
           | Some m \<Rightarrow>
               (let text_content = (if truthy (content m) then content m else None)
                in case images m of
                     None \<Rightarrow> Inr (None, text_content)
                   | Some imgs \<Rightarrow>
                       (case scan_images imgs of
                          Inl e \<Rightarrow> Inl e
                        | Inr image_data \<Rightarrow> Inr (image_data, text_content)))))"

section \<open>The extractor as the specification words it\<close>

text \<open>An inline image: declared kind \<open>image_url\<close> and a URL beginning with \<open>data:image\<close>.\<close>

definition is_inline_image :: "media_item \<Rightarrow> bool" where
  "is_inline_image it = (item_type it = ''image_url'' \<and> startswith (url it) ''data:image'')"

text \<open>The payload after the first comma of a URL.\<close>

definition payload_after_comma :: "string \<Rightarrow> string" where
  "payload_after_comma u = tl (dropWhile (\<lambda>x. x \<noteq> CHR '','') u)"

text \<open>The media list of a message (empty when there is none) and its free text, if present.\<close>

definition media_list :: "chat_message \<Rightarrow> media_item list" where
  "media_list m = (case images m of None \<Rightarrow> [] | Some imgs \<Rightarrow> imgs)"

definition free_text :: "chat_message \<Rightarrow> string option" where
  "free_text m = (case content m of None \<Rightarrow> None | Some s \<Rightarrow> if s = [] then None else Some s)"

text \<open>The first candidate message of a response, if there is one.\<close>

definition first_message :: "chat_response \<Rightarrow> chat_message option" where
  "first_message r = (case choices r of [] \<Rightarrow> None | c # _ \<Rightarrow> message c)"

text \<open>The first inline image of the first candidate message, if any.\<close>

definition first_inline_image :: "chat_response \<Rightarrow> media_item option" where
  "first_inline_image r =
     (case first_message r of None \<Rightarrow> None | Some m \<Rightarrow> find is_inline_image (media_list m))"

text \<open>Section 4.3 of the specification, read as a total function.\<close>

definition spec_extract :: "chat_response \<Rightarrow> string option \<times> string option" where
  "spec_extract r =
     (case first_message r of
        None \<Rightarrow> (None, None)
      | Some m \<Rightarrow>
          (map_option (\<lambda>it. payload_after_comma (url it)) (find is_inline_image (media_list m)),
           free_text m))"

section \<open>The standard library's base64 codec\<close>

text \<open>
  \<open>base64.b64encode\<close> (RFC 4648 with padding) and \<open>base64.b64decode\<close> with its default
  \<open>validate=False\<close>, as \<open>binascii.a2b_base64\<close> of CPython 3.11 and later computes it outside
  strict mode:
  characters outside the alphabet are skipped, a completed pad sequence ends the input, and
  an unfinished quad at the end of the input raises \<open>binascii.Error\<close>. A \<open>str\<close> argument with
  a non-ASCII character raises \<open>ValueError\<close>.
\<close>

definition b64_alphabet :: string where
  "b64_alphabet = ''ABCDEFGHIJKLMNOPQRSTUVWXYZabcdefghijklmnopqrstuvwxyz0123456789+/''"

definition b64_char :: "nat \<Rightarrow> char" where
  "b64_char n = b64_alphabet ! (n mod 64)"

fun b64_groups :: "nat list \<Rightarrow> string" where
  "b64_groups [] = []"
| "b64_groups [a] =
     [b64_char (a div 4), b64_char ((a mod 4) * 16), CHR ''='', CHR ''='']"
| "b64_groups [a, b] =
     [b64_char (a div 4), b64_char ((a mod 4) * 16 + b div 16),
      b64_char ((b mod 16) * 4), CHR ''='']"
| "b64_groups (a # b # c # rest) =
     [b64_char (a div 4), b64_char ((a mod 4) * 16 + b div 16),
      b64_char ((b mod 16) * 4 + c div 64), b64_char (c mod 64)] @ b64_groups rest"

definition b64encode :: "string \<Rightarrow> string" where
  "b64encode bs = b64_groups (map of_char bs)"

fun index_of :: "'a \<Rightarrow> 'a list \<Rightarrow> nat option" where
  "index_of x [] = None"
| "index_of x (y # ys) = (if x = y then Some 0 else map_option Suc (index_of x ys))"

definition byte_of_nat :: "nat \<Rightarrow> char" where
  "byte_of_nat n =
     Char (odd n) (odd (n div 2)) (odd (n div 4)) (odd (n div 8))
          (odd (n div 16)) (odd (n div 32)) (odd (n div 64)) (odd (n div 128))"

text \<open>The decoding loop: the rest of the input, \<open>quad_pos\<close>, \<open>leftchar\<close>, \<open>pads\<close> and the
  bytes produced so far.\<close>

fun a2b_base64 :: "string \<Rightarrow> nat \<Rightarrow> nat \<Rightarrow> nat \<Rightarrow> nat list \<Rightarrow> exn + nat list" where
  "a2b_base64 [] quad_pos leftchar pads out =
     (if quad_pos = 0 then Inr out
      else if quad_pos = 1
      then Inl (BinasciiError
             (''Invalid base64-encoded string: number of data characters (''
              @ show_nat (length out div 3 * 4 + 1)
              @ '') cannot be 1 more than a multiple of 4''))
      else Inl (BinasciiError ''Incorrect padding''))"
| "a2b_base64 (c # cs) quad_pos leftchar pads out =
     (if c = CHR ''=''
      then (if 2 \<le> quad_pos \<and> 4 \<le> quad_pos + (pads + 1) then Inr out
            else a2b_base64 cs quad_pos leftchar
                   (if 2 \<le> quad_pos then pads + 1 else pads) out)
      else (case index_of c b64_alphabet of
              None \<Rightarrow> a2b_base64 cs quad_pos leftchar pads out
            | Some v \<Rightarrow>
                if quad_pos = 0 then a2b_base64 cs 1 v 0 out
                else if quad_pos = 1
                then a2b_base64 cs 2 (v mod 16) 0 (out @ [leftchar * 4 + v div 16])
                else if quad_pos = 2
                then a2b_base64 cs 3 (v mod 4) 0 (out @ [leftchar * 16 + v div 4])
                else a2b_base64 cs 0 0 0 (out @ [leftchar * 64 + v])))"

definition b64decode :: "string \<Rightarrow> exn + string" where
  "b64decode s =
     (if list_ex (\<lambda>c. 128 \<le> (of_char c :: nat)) s
      then Inl (ValueError ''string argument should contain only ASCII characters'')
      else (case a2b_base64 s 0 0 0 [] of
              Inl e \<Rightarrow> Inl e
            | Inr out \<Rightarrow> Inr (map byte_of_nat out)))"

section \<open>JSON bodies, outbound requests and the world the handlers run in\<close>

datatype json =
    JNull
  | JBool bool
  | JInt int
  | JStr string
  | JArr "json list"
  | JObj "(string \<times> json) list"

text \<open>One block of a multimodal message: \<open>{"type": "text", "text": t}\<close> or
  \<open>{"type": "image_url", "image_url": {"url": u}}\<close>. A message's content is a plain string
  or a list of blocks; a request is the \<open>model\<close> and the \<open>messages\<close> (role and content).\<close>

datatype content_block = TextBlock string | ImageUrlBlock string

datatype msg_content = Plain string | Blocks "content_block list"

record chat_request =
  model :: string
  messages :: "(string \<times> msg_content) list"

record client =
  base_url :: string
  client_key :: string

text \<open>
  What a handler reads and changes: the environment variable \<open>OPENROUTER_API_KEY\<close>, the
  hosted endpoint (what it answers to a request, or the exception the call raises), the
  string \<open>str(uuid.uuid4())\<close> the next draw gives, the files on disk by path, the requests
  sent so far, and the lines printed so far. Directories are not modelled: a path is a key.
\<close>

record world =
  api_key :: "string option"
  upstream :: "chat_request \<Rightarrow> exn + chat_response"
  uuid4 :: string
  files :: "string \<rightharpoonup> string"
  calls :: "chat_request list"
  stdout :: "string list"

text \<open>What a Flask view function ends with: a JSON body and a status, or an exception that
  leaves the view function uncaught.\<close>

datatype reply = Reply json nat | Unhandled exn

text \<open>\<open>client.chat.completions.create(...)\<close>: the one outbound call.\<close>

definition create :: "client \<Rightarrow> chat_request \<Rightarrow> world \<Rightarrow> (exn + chat_response) \<times> world" where
  "create cl req w = (upstream w req, w\<lparr>calls := calls w @ [req]\<rparr>)"

text \<open>\<open>d.get(k, default)\<close> on a dictionary with string keys: the value stored under the
  key, whatever it is, when the key is present.\<close>

definition dict_get :: "(string \<rightharpoonup> 'v) \<Rightarrow> string \<Rightarrow> 'v \<Rightarrow> 'v" where
  "dict_get d k dflt = (case d k of None \<Rightarrow> dflt | Some v \<Rightarrow> v)"

text \<open>\<open>f"{x}"\<close> for an optional string of the program (the payload, the model's text, a
  command-line argument).\<close>

definition fmt :: "string option \<Rightarrow> string" where
  "fmt x = (case x of None \<Rightarrow> ''None'' | Some s \<Rightarrow> s)"

text \<open>\<open>base / name\<close> of pathlib, as the string of the resulting path: an absolute right
  operand replaces the left one.\<close>

definition path_join :: "string \<Rightarrow> string \<Rightarrow> string" where
  "path_join base name = (if startswith name ''/'' then name else base @ ''/'' @ name)"

definition path_exists :: "string \<Rightarrow> world \<Rightarrow> bool" where
  "path_exists p w = (files w p \<noteq> None)"

text \<open>The statement \<open>with open(path, "wb") as f: f.write(base64.b64decode(data))\<close>, which both
  programs use to persist an image: \<open>open\<close> creates or truncates the file before the argument
  of \<open>write\<close> is evaluated, so a decoding error leaves the empty file behind.\<close>

definition write_decoded :: "string \<Rightarrow> string \<Rightarrow> world \<Rightarrow> exn option \<times> world" where
  "write_decoded path data w =
     (let w1 = w\<lparr>files := (files w)(path \<mapsto> [])\<rparr>
      in case b64decode data of
           Inl e \<Rightarrow> (Some e, w1)
         | Inr bs \<Rightarrow> (None, w1\<lparr>files := (files w1)(path \<mapsto> bs)\<rparr>))"

section \<open>The values of a request body\<close>

text \<open>
  The body of a generate or breed request is a JSON object, so \<open>request.json\<close> is a
  dictionary from field names to JSON values: a field the interface lists as a string can
  arrive as \<open>null\<close>, a boolean, a number, an array or an object. The handlers
  format such a value into text (\<open>f"{v}"\<close>, that is \<open>str(v)\<close>) and slice it (\<open>v[:3]\<close>,
  \<open>v[-3:]\<close>). \<open>str\<close> of a string is the string; of any other value it is its \<open>repr\<close>, which
  quotes and escapes the strings inside. Slicing works on strings and arrays and raises
  \<open>TypeError\<close> on the rest (for an object the exception is \<open>TypeError\<close> up to Python 3.11
  and \<open>KeyError\<close> after it; both are caught the same way). Fractions are not modelled.
\<close>

definition hex_digit :: "nat \<Rightarrow> char" where
  "hex_digit n = ''0123456789abcdef'' ! (n mod 16)"

definition show_int :: "int \<Rightarrow> string" where
  "show_int i = (if i < 0 then CHR ''-'' # show_nat (nat (- i)) else show_nat (nat i))"

text \<open>\<open>sep.join(xs)\<close>.\<close>

fun join_lines :: "string \<Rightarrow> string list \<Rightarrow> string" where
  "join_lines sep [] = []"
| "join_lines sep [x] = x"
| "join_lines sep (x # y # ys) = x @ sep @ join_lines sep (y # ys)"

definition py_printable :: "char \<Rightarrow> bool" where
  "py_printable c =
     (let n = (of_char c :: nat)
      in (32 \<le> n \<and> n \<le> 126) \<or> (161 \<le> n \<and> n \<noteq> 173))"

text \<open>\<open>repr\<close> of a string: double quotes when the string has a single quote and no double
  quote, single quotes otherwise.\<close>

definition repr_char :: "char \<Rightarrow> char \<Rightarrow> string" where
  "repr_char q c =
     (if c = q \<or> c = CHR 0x5C then [CHR 0x5C, c]
      else if c = CHR 0x09 then [CHR 0x5C, CHR ''t'']
      else if c = CHR 0x0A then [CHR 0x5C, CHR ''n'']
      else if c = CHR 0x0D then [CHR 0x5C, CHR ''r'']
      else if py_printable c then [c]
      else [CHR 0x5C, CHR ''x'', hex_digit (of_char c div 16), hex_digit (of_char c)])"

definition repr_str :: "string \<Rightarrow> string" where
  "repr_str s =
     (let q = (if CHR 0x27 \<in> set s \<and> CHR 0x22 \<notin> set s then CHR 0x22 else CHR 0x27)
      in q # concat (map (repr_char q) s) @ [q])"

fun py_repr :: "json \<Rightarrow> string" where
  "py_repr JNull = ''None''"
| "py_repr (JBool b) = (if b then ''True'' else ''False'')"
| "py_repr (JInt i) = show_int i"
| "py_repr (JStr s) = repr_str s"
| "py_repr (JArr xs) = ''['' @ join_lines '', '' (map py_repr xs) @ '']''"
| "py_repr (JObj kvs) =
     ''{''
     @ join_lines '', '' (map (\<lambda>kv. repr_str (fst kv) @ '': '' @ py_repr (snd kv)) kvs)
     @ ''}''"

text \<open>\<open>f"{v}"\<close> for a value of the request body.\<close>

fun py_str :: "json \<Rightarrow> string" where
  "py_str (JStr s) = s"
| "py_str v = py_repr v"

text \<open>\<open>v[:3]\<close> and \<open>v[-3:]\<close>.\<close>

fun unsliceable :: "json \<Rightarrow> exn" where
  "unsliceable JNull = TypeError (quoted ''NoneType'' @ '' object is not subscriptable'')"
| "unsliceable (JBool b) = TypeError (quoted ''bool'' @ '' object is not subscriptable'')"
| "unsliceable (JInt i) = TypeError (quoted ''int'' @ '' object is not subscriptable'')"
| "unsliceable v = TypeError (''unhashable type: '' @ quoted ''slice'')"

fun first_three :: "json \<Rightarrow> exn + json" where
  "first_three (JStr s) = Inr (JStr (take 3 s))"
| "first_three (JArr xs) = Inr (JArr (take 3 xs))"
| "first_three v = Inl (unsliceable v)"

fun last_three :: "json \<Rightarrow> exn + json" where
  "last_three (JStr s) = Inr (JStr (drop (length s - 3) s))"
| "last_three (JArr xs) = Inr (JArr (drop (length xs - 3) xs))"
| "last_three v = Inl (unsliceable v)"

section \<open>app.py: constants, client and handlers\<close>

definition IMAGES_DIR :: string where
  "IMAGES_DIR = ''static/generated''"

definition TEXT_MODEL :: string where
  "TEXT_MODEL = ''anthropic/claude-haiku-4.5''"

definition IMAGE_MODEL :: string where
  "IMAGE_MODEL = ''google/gemini-3-pro-image-preview''"


definition get_client :: "world \<Rightarrow> exn + client" where
  "get_client w =
     (if \<not> truthy (api_key w)
      then Inl (ValueError ''OPENROUTER_API_KEY environment variable not set'')
      else Inr \<lparr>base_url = ''https://openrouter.ai/api/v1'', client_key = fmt (api_key w)\<rparr>)"

definition encode_image :: "string \<Rightarrow> world \<Rightarrow> exn + string" where
  "encode_image image_path w =
     (case files w image_path of
        None \<Rightarrow> Inl (FileNotFoundError (''[Errno 2] No such file or directory: '' @ image_path))
      | Some bs \<Rightarrow> Inr (b64encode bs))"

text \<open>\<open>jsonify({"error": str(e)}), 500\<close>, the \<open>except Exception\<close> branch of every handler.\<close>

definition error_500 :: "exn \<Rightarrow> reply" where
  "error_500 e = Reply (JObj [(''error'', JStr (str_of e))]) 500"

definition random_prompt_text :: string where
  \<open>random_prompt_text =
     ''Generate a single creative and unique fantasy creature description for an image generator.\<newline>''
     @ ''Be imaginative! Mix unexpected elements like:\<newline>''
     @ ''- Animal hybrids (e.g., "a bioluminescent axolotl-phoenix")\<newline>''
     @ ''- Elemental creatures (e.g., "a storm spirit made of lightning")\<newline>''
     @ ''- Mythical beings (e.g., "a tiny dragon that lives in teacups")\<newline>''
     @ ''- Surreal combinations (e.g., "a crystal deer with galaxies in its antlers")\<newline>''
     @ ''\<newline>''
     @ ''Respond with ONLY the creature description, nothing else. Keep it under 15 words.''\<close>

text \<open>\<open>response.choices[0].message.content.strip()\<close>.\<close>

definition first_content_strip :: "chat_response \<Rightarrow> exn + string" where
  "first_content_strip response =
     (case py_index (choices response) 0 of
        Inl e \<Rightarrow> Inl e
      | Inr c \<Rightarrow>
          (case message c of
             None \<Rightarrow>
               Inl (AttributeError (quoted ''NoneType'' @ '' object has no attribute ''
                                    @ quoted ''content''))
           | Some m \<Rightarrow>
               (case content m of
                  None \<Rightarrow>
                    Inl (AttributeError (quoted ''NoneType'' @ '' object has no attribute ''
                                         @ quoted ''strip''))
                | Some s \<Rightarrow> Inr (strip s))))"

definition random_prompt :: "world \<Rightarrow> reply \<times> world" where
  "random_prompt w =
     (case get_client w of
        Inl e \<Rightarrow> (Unhandled e, w)
      | Inr cl \<Rightarrow>
          (case create cl \<lparr>model = TEXT_MODEL,
                           messages = [(''user'', Plain random_prompt_text)]\<rparr> w of
             (Inl e, w1) \<Rightarrow> (error_500 e, w1)
           | (Inr response, w1) \<Rightarrow>
               (case first_content_strip response of
                  Inl e \<Rightarrow> (error_500 e, w1)
                | Inr prompt \<Rightarrow> (Reply (JObj [(''prompt'', JStr prompt)]) 200, w1))))"

definition full_prompt :: "string \<Rightarrow> string" where
  "full_prompt prompt =
     ''Generate an image of: '' @ prompt
     @ ''\<newline>''
     @ ''\<newline>''
     @ ''Make it detailed and visually appealing.\<newline>''
     @ ''\<newline>''
     @ ''Also give it a short creative name. Respond with ONLY the name.''"

definition generate_request :: "string \<Rightarrow> chat_request" where
  "generate_request prompt =
     \<lparr>model = IMAGE_MODEL, messages = [(''user'', Plain (full_prompt prompt))]\<rparr>"

definition generate_animal :: "(string \<rightharpoonup> json) \<Rightarrow> world \<Rightarrow> reply \<times> world" where
  "generate_animal data w =
     (let prompt = dict_get data ''prompt'' (JStr ''a cute fantasy animal'')
      in case get_client w of
           Inl e \<Rightarrow> (Unhandled e, w)
         | Inr cl \<Rightarrow>
             (case create cl (generate_request (py_str prompt)) w of
                (Inl e, w1) \<Rightarrow> (error_500 e, w1)
              | (Inr response, w1) \<Rightarrow>
                  (case extract_image_from_response response of
                     Inl e \<Rightarrow> (error_500 e, w1)
                   | Inr (image_data, name) \<Rightarrow>
                       if \<not> truthy image_data
                       then (Reply (JObj [(''error'', JStr ''No image generated'')]) 500, w1)
                       else
                         (let image_id = take 8 (uuid4 w1);
                              image_path = path_join IMAGES_DIR (image_id @ ''.png'')
                          in case write_decoded image_path (fmt image_data) w1 of
                               (Some e, w2) \<Rightarrow> (error_500 e, w2)
                             | (None, w2) \<Rightarrow>
                                 (Reply (JObj
                                    [(''id'', JStr image_id),
                                     (''name'', JStr (if truthy name then strip (fmt name)
                                                      else ''Unknown Creature'')),
                                     (''image_url'',
                                        JStr (''/static/generated/'' @ image_id @ ''.png''))])
                                    200, w2)))))"

text \<open>The prompt of \<open>breed_animals\<close> is one formatted string; the model writes its text after
  the second parent's name as two constants: the task, and the closing request for a name.\<close>

definition breed_prompt_task :: string where
  \<open>breed_prompt_task =
     ''" (see second image)\<newline>''
     @ ''\<newline>''
     @ ''Your task: Imagine and design their OFFSPRING - a completely NEW fantastical creature that could believably be born from these two parents.\<newline>''
     @ ''\<newline>''
     @ ''Think about:\<newline>''
     @ ''- What body structure would it inherit? (size, shape, limbs)\<newline>''
     @ ''- What textures and materials? (scales, fur, crystal, coral, etc.)\<newline>''
     @ ''- What colors and patterns would emerge from mixing the parents?\<newline>''
     @ ''- What special abilities or magical properties might it have?\<newline>''
     @ ''- What environment would it live in?\<newline>''
     @ ''\<newline>''
     @ ''Create a detailed, imaginative image of this NEW creature. It should feel like a real fantasy species that inherited traits from both parents in surprising and creative ways. Don't just blend the images - imagine what their CHILD would actually look like as a unique being.\<newline>''
     @ ''\<newline>''\<close>

definition breed_prompt_closing :: string where
  "breed_prompt_closing =
     ''Also invent a creative species name for this offspring that reflects its heritage. Respond with ONLY the name, nothing else.''"

definition breed_prompt :: "string \<Rightarrow> string \<Rightarrow> string" where
  \<open>breed_prompt parent1_name parent2_name =
     ''You are a fantasy creature designer. Two magical creatures have bred and produced offspring.\<newline>''
     @ ''\<newline>''
     @ ''PARENT 1: "'' @ parent1_name @ ''" (see first image)\<newline>''
     @ ''PARENT 2: "'' @ parent2_name @ breed_prompt_task @ breed_prompt_closing\<close>

definition breed_request :: "string \<Rightarrow> string \<Rightarrow> string \<Rightarrow> chat_request" where
  "breed_request prompt base64_img1 base64_img2 =
     \<lparr>model = IMAGE_MODEL,
      messages =
        [(''user'',
          Blocks [TextBlock prompt,
                  ImageUrlBlock (''data:image/png;base64,'' @ base64_img1),
                  ImageUrlBlock (''data:image/png;base64,'' @ base64_img2)])]\<rparr>"

text \<open>\<open>f"{parent1_name[:3]}{parent2_name[-3:]}"\<close>, the name of an offspring the model did not
  name.\<close>

definition fallback_name :: "json \<Rightarrow> json \<Rightarrow> exn + string" where
  "fallback_name parent1_name parent2_name =
     (case first_three parent1_name of
        Inl e \<Rightarrow> Inl e
      | Inr a \<Rightarrow>
          (case last_three parent2_name of
             Inl e \<Rightarrow> Inl e
           | Inr b \<Rightarrow> Inr (py_str a @ py_str b)))"

definition breed_animals :: "(string \<rightharpoonup> json) \<Rightarrow> world \<Rightarrow> reply \<times> world" where
  "breed_animals data w =
     (let parent1_id = dict_get data ''parent1_id'' JNull;
          parent2_id = dict_get data ''parent2_id'' JNull;
          parent1_name = dict_get data ''parent1_name'' (JStr ''creature 1'');
          parent2_name = dict_get data ''parent2_name'' (JStr ''creature 2'');
          parent1_path = path_join IMAGES_DIR (py_str parent1_id @ ''.png'');
          parent2_path = path_join IMAGES_DIR (py_str parent2_id @ ''.png'')
      in if \<not> path_exists parent1_path w \<or> \<not> path_exists parent2_path w
         then (Reply (JObj [(''error'', JStr ''Parent images not found'')]) 404, w)
         else
           (case get_client w of
              Inl e \<Rightarrow> (Unhandled e, w)
            | Inr cl \<Rightarrow>
                (case encode_image parent1_path w of
                   Inl e \<Rightarrow> (Unhandled e, w)
                 | Inr base64_img1 \<Rightarrow>
                     (case encode_image parent2_path w of
                        Inl e \<Rightarrow> (Unhandled e, w)
                      | Inr base64_img2 \<Rightarrow>
                          (case create cl
                                  (breed_request
                                     (breed_prompt (py_str parent1_name) (py_str parent2_name))
                                     base64_img1 base64_img2) w of
                             (Inl e, w1) \<Rightarrow> (error_500 e, w1)
                           | (Inr response, w1) \<Rightarrow>
                               (case extract_image_from_response response of
                                  Inl e \<Rightarrow> (error_500 e, w1)
                                | Inr (image_data, name) \<Rightarrow>
                                    if \<not> truthy image_data
                                    then (Reply (JObj [(''error'', JStr ''No image generated'')])
                                            500, w1)
                                    else
                                      (let image_id = take 8 (uuid4 w1);
                                           image_path =
                                             path_join IMAGES_DIR (image_id @ ''.png'')
                                       in case write_decoded image_path (fmt image_data) w1 of
                                            (Some e, w2) \<Rightarrow> (error_500 e, w2)
                                          | (None, w2) \<Rightarrow>
                                              (case (if truthy name then Inr (strip (fmt name))
                                                     else fallback_name parent1_name
                                                            parent2_name) of
                                                 Inl e \<Rightarrow> (error_500 e, w2)
                                               | Inr offspring_name \<Rightarrow>
                                                   (Reply (JObj
                                                      [(''id'', JStr image_id),
                                                       (''name'', JStr offspring_name),
                                                       (''image_url'',
                                                          JStr (''/static/generated/''
                                                                @ image_id @ ''.png'')),
                                                       (''parents'',
                                                          JArr [parent1_id, parent2_id])])
                                                      200, w2)))))))))"

section \<open>app.py: the state file\<close>



section \<open>generate_image.py: the command-line tool\<close>

definition print :: "string \<Rightarrow> world \<Rightarrow> world" where
  "print line w = w\<lparr>stdout := stdout w @ [line]\<rparr>"

text \<open>\<open>get_client\<close> of the tool prints and leaves through \<open>sys.exit(1)\<close>.\<close>

definition cli_get_client :: "world \<Rightarrow> (exn + client) \<times> world" where
  "cli_get_client w =
     (if \<not> truthy (api_key w)
      then (Inl (SystemExit 1),
            print (''Set it with: export OPENROUTER_API_KEY='' @ quoted ''your-key-here'')
              (print ''ERROR: OPENROUTER_API_KEY environment variable not set.'' w))
      else (Inr \<lparr>base_url = ''https://openrouter.ai/api/v1'', client_key = fmt (api_key w)\<rparr>,
            w))"

text \<open>\<open>Path(p).suffix\<close>: the final component of the path (empty and \<open>.\<close> components are
  dropped), from its last dot on, when that dot is neither its first nor its last character
  (pathlib up to Python 3.13).\<close>

fun split_on :: "char \<Rightarrow> string \<Rightarrow> string list" where
  "split_on c [] = [[]]"
| "split_on c (x # xs) =
     (if x = c then [] # split_on c xs
      else (case split_on c xs of [] \<Rightarrow> [[x]] | p # ps \<Rightarrow> (x # p) # ps))"

definition path_name :: "string \<Rightarrow> string" where
  "path_name p =
     (let parts = filter (\<lambda>x. x \<noteq> [] \<and> x \<noteq> ''.'') (split_on (CHR ''/'') p)
      in if parts = [] then [] else last parts)"

definition rfind :: "char \<Rightarrow> string \<Rightarrow> nat option" where
  "rfind c s =
     (if c \<in> set s
      then Some (length s - 1 - length (takeWhile (\<lambda>x. x \<noteq> c) (rev s)))
      else None)"

definition path_suffix :: "string \<Rightarrow> string" where
  "path_suffix p =
     (let name = path_name p
      in case rfind (CHR ''.'') name of
           None \<Rightarrow> []
         | Some i \<Rightarrow> if 0 < i \<and> i + 1 < length name then drop i name else [])"

text \<open>\<open>s.lower()\<close> on code points below 256.\<close>

definition lower_char :: "char \<Rightarrow> char" where
  "lower_char c =
     (let n = (of_char c :: nat)
      in if (65 \<le> n \<and> n \<le> 90) \<or> (192 \<le> n \<and> n \<le> 222 \<and> n \<noteq> 215)
         then byte_of_nat (n + 32) else c)"

definition lower :: "string \<Rightarrow> string" where
  "lower s = map lower_char s"

definition mime_types :: "(string \<times> string) list" where
  "mime_types =
     [(''.jpg'', ''image/jpeg''),
      (''.jpeg'', ''image/jpeg''),
      (''.png'', ''image/png''),
      (''.gif'', ''image/gif''),
      (''.webp'', ''image/webp'')]"

definition get_image_mime_type :: "string \<Rightarrow> string" where
  "get_image_mime_type image_path =
     (let ext = lower (path_suffix image_path)
      in case map_of mime_types ext of None \<Rightarrow> ''image/jpeg'' | Some t \<Rightarrow> t)"

text \<open>The loop of \<open>extract_and_save_image\<close> over \<open>message.images\<close>, with the lines after it
  (no image found) as the empty case. \<open>os.makedirs\<close> has no counterpart: a path is a key.\<close>

fun save_first_image :: "media_item list \<Rightarrow> string \<Rightarrow> world \<Rightarrow> (exn + bool) \<times> world" where
  "save_first_image [] output_path w =
     (Inr False, print ''ERROR: No images found in response'' w)"
| "save_first_image (image_data # rest) output_path w =
     (if item_type image_data = ''image_url'' \<and> startswith (url image_data) ''data:image''
      then (case py_index (split1 (CHR '','') (url image_data)) 1 of
              Inl e \<Rightarrow> (Inl e, w)
            | Inr base64_data \<Rightarrow>
                (case write_decoded output_path base64_data w of
                   (Some e, w1) \<Rightarrow> (Inl e, w1)
                 | (None, w1) \<Rightarrow>
                     (Inr True, print (''SUCCESS: Image saved to '' @ output_path) w1)))
      else save_first_image rest output_path w)"

definition extract_and_save_image ::
  "chat_response \<Rightarrow> string \<Rightarrow> world \<Rightarrow> (exn + bool) \<times> world" where
  "extract_and_save_image response output_path w =
     (case choices response of
        [] \<Rightarrow> (Inr False, print ''ERROR: No response received from API'' w)
      | c # _ \<Rightarrow>
          (case message c of
             None \<Rightarrow> (Inr False, print ''ERROR: No response received from API'' w)
           | Some m \<Rightarrow>
               (let w1 = (if truthy (content m)
                          then print (''Model response: '' @ fmt (content m)) w else w)
                in case images m of
                     None \<Rightarrow> (Inr False, print ''ERROR: No images found in response'' w1)
                   | Some imgs \<Rightarrow> save_first_image imgs output_path w1)))"

definition generate_from_text ::
  "string \<Rightarrow> string \<Rightarrow> string \<Rightarrow> world \<Rightarrow> (exn + bool) \<times> world" where
  "generate_from_text prompt output_path mdl w =
     (case cli_get_client w of
        (Inl e, w1) \<Rightarrow> (Inl e, w1)
      | (Inr cl, w1) \<Rightarrow>
          (let w2 = print (''Generating image from prompt: '' @ take 100 prompt @ ''...'') w1
           in case create cl \<lparr>model = mdl, messages = [(''user'', Plain prompt)]\<rparr> w2 of
                (Inl e, w3) \<Rightarrow> (Inl e, w3)
              | (Inr response, w3) \<Rightarrow> extract_and_save_image response output_path w3))"

definition two_images_request ::
  "string \<Rightarrow> string \<Rightarrow> string \<Rightarrow> string \<Rightarrow> string \<Rightarrow> string \<Rightarrow> chat_request" where
  "two_images_request mdl prompt mime_type1 base64_image1 mime_type2 base64_image2 =
     \<lparr>model = mdl,
      messages =
        [(''user'',
          Blocks
            [TextBlock
               (''Generate a new image that combines or blends these two images: '' @ prompt),
             ImageUrlBlock (''data:'' @ mime_type1 @ '';base64,'' @ base64_image1),
             ImageUrlBlock (''data:'' @ mime_type2 @ '';base64,'' @ base64_image2)])]\<rparr>"

definition generate_from_two_images ::
  "string \<Rightarrow> string \<Rightarrow> string \<Rightarrow> string \<Rightarrow> string \<Rightarrow> world \<Rightarrow> (exn + bool) \<times> world" where
  "generate_from_two_images image1 image2 prompt output_path mdl w =
     (case cli_get_client w of
        (Inl e, w1) \<Rightarrow> (Inl e, w1)
      | (Inr cl, w1) \<Rightarrow>
          if \<not> path_exists image1 w1
          then (Inr False, print (''ERROR: Input image not found: '' @ image1) w1)
          else if \<not> path_exists image2 w1
          then (Inr False, print (''ERROR: Input image not found: '' @ image2) w1)
          else
            (let w2 = print (''Prompt: '' @ take 100 prompt @ ''...'')
                        (print (''Breeding images: '' @ image1 @ '' + '' @ image2) w1)
             in case encode_image image1 w2 of
                  Inl e \<Rightarrow> (Inl e, w2)
                | Inr base64_image1 \<Rightarrow>
                    (case encode_image image2 w2 of
                       Inl e \<Rightarrow> (Inl e, w2)
                     | Inr base64_image2 \<Rightarrow>
                         (case create cl
                                 (two_images_request mdl prompt
                                    (get_image_mime_type image1) base64_image1
                                    (get_image_mime_type image2) base64_image2) w2 of
                            (Inl e, w3) \<Rightarrow> (Inl e, w3)
                          | (Inr response, w3) \<Rightarrow>
                              extract_and_save_image response output_path w3))))"

definition generate_from_image ::
  "string \<Rightarrow> string \<Rightarrow> string \<Rightarrow> string \<Rightarrow> world \<Rightarrow> (exn + bool) \<times> world" where
  "generate_from_image input_image prompt output_path mdl w =
     (case cli_get_client w of
        (Inl e, w1) \<Rightarrow> (Inl e, w1)
      | (Inr cl, w1) \<Rightarrow>
          if \<not> path_exists input_image w1
          then (Inr False, print (''ERROR: Input image not found: '' @ input_image) w1)
          else
            (let w2 = print (''Prompt: '' @ take 100 prompt @ ''...'')
                        (print (''Generating image from: '' @ input_image) w1)
             in case encode_image input_image w2 of
                  Inl e \<Rightarrow> (Inl e, w2)
                | Inr base64_image \<Rightarrow>
                    (case create cl
                            \<lparr>model = mdl,
                             messages =
                               [(''user'',
                                 Blocks
                                   [TextBlock (''Generate an image: '' @ prompt),
                                    ImageUrlBlock
                                      (''data:'' @ get_image_mime_type input_image
                                       @ '';base64,'' @ base64_image)])]\<rparr> w2 of
                       (Inl e, w3) \<Rightarrow> (Inl e, w3)
                     | (Inr response, w3) \<Rightarrow>
                         extract_and_save_image response output_path w3)))"

text \<open>The parsed command line, and how the process ends: with an exit status, or with the
  traceback of an exception nobody caught (the interpreter then exits with status 1).\<close>

record args =
  arg_prompt :: string
  arg_output :: string
  arg_input :: "string option"
  arg_input2 :: "string option"
  arg_model :: string

datatype cli_end = Exit nat | Traceback exn

fun exit_status :: "cli_end \<Rightarrow> nat" where
  "exit_status (Exit n) = n"
| "exit_status (Traceback e) = 1"

fun leave :: "exn \<Rightarrow> cli_end" where
  "leave (SystemExit n) = Exit n"
| "leave e = Traceback e"

text \<open>\<open>sys.exit(0 if success else 1)\<close> after the chosen generator, or the exception that left
  it.\<close>

definition finish :: "(exn + bool) \<times> world \<Rightarrow> cli_end \<times> world" where
  "finish r =
     (case r of
        (Inl e, w) \<Rightarrow> (leave e, w)
      | (Inr success, w) \<Rightarrow> (Exit (if success then 0 else 1), w))"

definition main :: "args \<Rightarrow> world \<Rightarrow> cli_end \<times> world" where
  "main a w =
     (if truthy (arg_input a) \<and> truthy (arg_input2 a)
      then finish (generate_from_two_images (fmt (arg_input a)) (fmt (arg_input2 a))
                     (arg_prompt a) (arg_output a) (arg_model a) w)
      else if truthy (arg_input a)
      then finish (generate_from_image (fmt (arg_input a)) (arg_prompt a) (arg_output a)
                     (arg_model a) w)
      else if truthy (arg_input2 a)
      then (Exit 1, print ''ERROR: --input2 requires --input to also be specified'' w)
      else finish (generate_from_text (arg_prompt a) (arg_output a) (arg_model a) w))"

section \<open>The standard library's JSON codec\<close>

text \<open>
  A model of \<open>json.dump(data, f, indent=2)\<close> and \<open>json.load(f)\<close> for the documents of type
  \<open>json\<close>, used to run the state handlers on concrete documents. The writer follows Python's
  layout: two spaces per nesting level, \<open>,\<close> and a newline between items, \<open>: \<close> after a key,
  and every character outside the printable ASCII range escaped.
\<close>

definition escape_char :: "char \<Rightarrow> string" where
  "escape_char c =
     (let n = (of_char c :: nat)
      in if c = CHR 0x22 then [CHR 0x5C, CHR 0x22]
         else if c = CHR 0x5C then [CHR 0x5C, CHR 0x5C]
         else if n = 8 then [CHR 0x5C, CHR ''b'']
         else if n = 12 then [CHR 0x5C, CHR ''f'']
         else if n = 10 then [CHR 0x5C, CHR ''n'']
         else if n = 13 then [CHR 0x5C, CHR ''r'']
         else if n = 9 then [CHR 0x5C, CHR ''t'']
         else if 32 \<le> n \<and> n \<le> 126 then [c]
         else [CHR 0x5C, CHR ''u'', CHR ''0'', CHR ''0'', hex_digit (n div 16), hex_digit n])"

definition json_string :: "string \<Rightarrow> string" where
  "json_string s = CHR 0x22 # concat (map escape_char s) @ [CHR 0x22]"

definition indentation :: "nat \<Rightarrow> string" where
  "indentation level = replicate (2 * level) (CHR '' '')"

fun dump_at :: "nat \<Rightarrow> json \<Rightarrow> string" where
  "dump_at level JNull = ''null''"
| "dump_at level (JBool b) = (if b then ''true'' else ''false'')"
| "dump_at level (JInt i) = show_int i"
| "dump_at level (JStr s) = json_string s"
| "dump_at level (JArr xs) =
     (if xs = [] then ''[]''
      else ''['' @ ''\<newline>'' @ indentation (Suc level)
           @ join_lines ('','' @ ''\<newline>'' @ indentation (Suc level))
               (map (dump_at (Suc level)) xs)
           @ ''\<newline>'' @ indentation level @ '']'')"
| "dump_at level (JObj kvs) =
     (if kvs = [] then ''{}''
      else ''{'' @ ''\<newline>'' @ indentation (Suc level)
           @ join_lines ('','' @ ''\<newline>'' @ indentation (Suc level))
               (map (\<lambda>kv. json_string (fst kv) @ '': '' @ dump_at (Suc level) (snd kv)) kvs)
           @ ''\<newline>'' @ indentation level @ ''}'')"


text \<open>The reader: whitespace, the three literals, strings with their escapes, integers
  (a fraction or an exponent is outside the model), arrays and objects. \<open>read_value\<close> takes
  a bound on the nesting and the number of items that is decreased at every step; \<open>json_load\<close>
  starts it with the length of the text. Python's messages carry a position, left out here.\<close>

definition is_space :: "char \<Rightarrow> bool" where
  "is_space c = (c = CHR '' '' \<or> c = CHR 0x0A \<or> c = CHR 0x0D \<or> c = CHR 0x09)"

definition skip_ws :: "string \<Rightarrow> string" where
  "skip_ws s = dropWhile is_space s"



definition push :: "'a \<Rightarrow> ('a list \<times> 'b) option \<Rightarrow> ('a list \<times> 'b) option" where
  "push x r = (case r of None \<Rightarrow> None | Some (xs, rest) \<Rightarrow> Some (x # xs, rest))"







definition ends_number :: "string \<Rightarrow> bool" where
  "ends_number rest =
     (rest = [] \<or> (index_of (hd rest) digit_chars = None \<and> hd rest \<notin> set ''.eE''))"

definition opens_value :: "char \<Rightarrow> bool" where
  "opens_value c = (c \<in> set ''ntf[{-0123456789'' \<or> c = CHR 0x22)"


section \<open>Reading a reply\<close>

text \<open>A reply is an error when the view function raised or answered with a status other
  than 200; \<open>json_field\<close> reads one field of a JSON object.\<close>

definition is_error :: "reply \<Rightarrow> bool" where
  "is_error r = (case r of Reply body status \<Rightarrow> status \<noteq> 200 | Unhandled e \<Rightarrow> True)"


section \<open>Example inputs\<close>

text \<open>A response with one candidate message, and two media items: a well-formed data-URI
  and one without a comma.\<close>

definition response_with :: "string option \<Rightarrow> media_item list \<Rightarrow> chat_response" where
  "response_with txt imgs =
     \<lparr>choices = [\<lparr>message = Some \<lparr>content = txt, images = Some imgs\<rparr>\<rparr>]\<rparr>"

definition good_item :: media_item where
  "good_item = \<lparr>item_type = ''image_url'', url = ''data:image/png;base64,AAAA''\<rparr>"

definition bad_item :: media_item where
  "bad_item = \<lparr>item_type = ''image_url'', url = ''data:image/png;base64''\<rparr>"


text \<open>A world with the credential set, an endpoint that answers every request with the
  given response, and two stored creature images; a breed request for them; a breed request
  whose second parent is not on disk; a request body without fields; and a command line
  that breeds two files that do not exist.\<close>

definition answer_with :: "chat_response \<Rightarrow> chat_request \<Rightarrow> exn + chat_response" where
  "answer_with resp req = Inr resp"

definition demo_world :: "chat_response \<Rightarrow> world" where
  "demo_world resp =
     \<lparr>api_key = Some ''sk-or-demo'',
      upstream = answer_with resp,
      uuid4 = ''1b4e28ba-2fa1-41d2-883f-0016d3cca427'',
      files = [''static/generated/aaaa1111.png'' \<mapsto> ''cat'',
               ''static/generated/bbbb2222.png'' \<mapsto> ''dog''],
      calls = [],
      stdout = []\<rparr>"


definition orphan_breed :: "string \<rightharpoonup> json" where
  "orphan_breed =
     [''parent1_id'' \<mapsto> JStr ''aaaa1111'', ''parent2_id'' \<mapsto> JStr ''zzzz9999'']"

definition no_fields :: "string \<rightharpoonup> json" where
  "no_fields = Map.empty"


definition demo_args :: args where
  "demo_args =
     \<lparr>arg_prompt = ''Create a hybrid animal'',
      arg_output = ''catdog.png'',
      arg_input = Some ''cat.jpg'',
      arg_input2 = Some ''dog.jpg'',
      arg_model = ''google/gemini-3-pro-image-preview''\<rparr>"


section \<open>Helper facts\<close>

lemma scan_images_find:
  "scan_images imgs =
     (case find is_inline_image imgs of
        None \<Rightarrow> Inr None
      | Some it \<Rightarrow>
          if CHR '','' \<in> set (url it)
          then Inr (Some (payload_after_comma (url it)))
          else Inl (IndexError ''list index out of range''))"
  by (induction imgs)
     (simp_all add: is_inline_image_def py_index_def split1_def payload_after_comma_def)

lemma extract_characterisation:
  "extract_image_from_response r =
     (case first_inline_image r of
        None \<Rightarrow> Inr (spec_extract r)
      | Some it \<Rightarrow>
          if CHR '','' \<in> set (url it)
          then Inr (spec_extract r)
          else Inl (IndexError ''list index out of range''))"
  by (auto simp: extract_image_from_response_def first_inline_image_def spec_extract_def
        first_message_def media_list_def free_text_def scan_images_find
      split: list.splits option.splits)



lemma first_inline_good:
  "first_inline_image (response_with t (good_item # rest)) = Some good_item"
  by (simp add: first_inline_image_def first_message_def response_with_def media_list_def
      is_inline_image_def good_item_def startswith_def)

lemma extract_text_not_empty [simp]:
  "extract_image_from_response r \<noteq> Inr (img, Some [])"
  by (auto simp: extract_image_from_response_def Let_def
      split: list.splits option.splits sum.splits if_splits)

lemma is_error_simps [simp]:
  "is_error (Unhandled e)"
  "is_error (error_500 e)"
  "is_error (Reply b 500)"
  "is_error (Reply b 404)"
  "\<not> is_error (Reply b 200)"
  by (simp_all add: is_error_def error_500_def)











lemma fallback_name_strings:
  "fallback_name (JStr a) (JStr b) = Inr (take 3 a @ drop (length b - 3) b)"
  by (simp add: fallback_name_def)


section \<open>C1: what the extractor returns\<close>

text \<open>
  C1, as the claim states it, says that for every response the extractor returns the pair of
  section 4.3. It does not at a response whose first inline image has a URL without a comma:
  \<open>split(',', 1)[1]\<close> raises and nothing is returned.
\<close>

theorem extract_no_comma_counterexample:
  "extract_image_from_response (response_with (Some ''Name'') [bad_item])
     = Inl (IndexError ''list index out of range'')"
  by (simp add: extract_image_from_response_def response_with_def bad_item_def startswith_def
      py_index_def split1_def)

text \<open>
  C1, amended: for every response whose first inline image (if there is one) has a comma in
  its URL, the extractor returns the pair \<open>spec_extract\<close> describes: the free text of the first
  candidate message, if present, and the payload after the first comma of the first item of
  kind \<open>image_url\<close> whose URL begins with \<open>data:image\<close>; no image when no item matches, and
  neither field when there is no candidate message.
\<close>

theorem extract_image_from_response_spec:
  assumes "\<forall>it. first_inline_image r = Some it \<longrightarrow> CHR '','' \<in> set (url it)"
  shows "extract_image_from_response r = Inr (spec_extract r)"
  using assms by (simp add: extract_characterisation split: option.splits)

text \<open>The specification's example: text \<open>Name\<close> and the image URL
  \<open>data:image/png;base64,AAAA\<close> give image \<open>AAAA\<close> and text \<open>Name\<close>.\<close>

theorem extract_image_from_response_spec_witness:
  "first_inline_image (response_with (Some ''Name'') [good_item]) = Some good_item
   \<and> CHR '','' \<in> set (url good_item)
   \<and> extract_image_from_response (response_with (Some ''Name'') [good_item])
       = Inr (Some ''AAAA'', Some ''Name'')"
proof -
  have h: "\<forall>it. first_inline_image (response_with (Some ''Name'') [good_item]) = Some it
             \<longrightarrow> CHR '','' \<in> set (url it)"
    by (simp add: first_inline_good) (simp add: good_item_def)
  have "spec_extract (response_with (Some ''Name'') [good_item]) = (Some ''AAAA'', Some ''Name'')"
    by (simp add: spec_extract_def first_message_def response_with_def media_list_def
        is_inline_image_def good_item_def startswith_def payload_after_comma_def free_text_def)
  with extract_image_from_response_spec [OF h] show ?thesis
    by (simp add: first_inline_good) (simp add: good_item_def)
qed

section \<open>C9: where the extractor raises\<close>




section \<open>C2: the missing credential\<close>

text \<open>
  C2 says that a missing \<open>OPENROUTER_API_KEY\<close> is caught at the handler boundary and answered
  with a JSON error body and status 500. In app.py \<open>get_client()\<close> is called before the \<open>try\<close>
  of each view function, so the \<open>ValueError\<close> leaves the view function uncaught: no request
  is sent, and no JSON error body is produced. The command-line tool prints the message and
  exits with status 1, whatever its arguments.
\<close>

theorem missing_key_escapes_web_handlers:
  "random_prompt (w\<lparr>api_key := None\<rparr>)
     = (Unhandled (ValueError ''OPENROUTER_API_KEY environment variable not set''),
        w\<lparr>api_key := None\<rparr>)
   \<and> generate_animal data (w\<lparr>api_key := None\<rparr>)
     = (Unhandled (ValueError ''OPENROUTER_API_KEY environment variable not set''),
        w\<lparr>api_key := None\<rparr>)
   \<and> fst (main a (w\<lparr>api_key := None\<rparr>)) = Exit 1
   \<and> calls (snd (main a (w\<lparr>api_key := None\<rparr>))) = calls w"
  by (simp add: random_prompt_def generate_animal_def get_client_def main_def finish_def
      generate_from_two_images_def generate_from_image_def generate_from_text_def
      cli_get_client_def print_def)

section \<open>C3: breeding checks the parents before the network\<close>

text \<open>
  C3: when either parent of a breed request has no image file on disk, \<open>breed_animals\<close>
  answers 404 with \<open>Parent images not found\<close> and leaves the world as it was, so no request
  has been sent; the tool's \<open>generate_from_two_images\<close> returns \<open>False\<close> (or has already left
  through \<open>sys.exit(1)\<close> for want of a credential) without a request and without touching a
  file, and \<open>main\<close> ends with exit status 1.
\<close>

theorem breed_missing_parent_no_call:
  "(\<not> path_exists (path_join IMAGES_DIR (py_str (dict_get data ''parent1_id'' JNull) @ ''.png'')) w
     \<or> \<not> path_exists (path_join IMAGES_DIR (py_str (dict_get data ''parent2_id'' JNull) @ ''.png'')) w
    \<longrightarrow> breed_animals data w
          = (Reply (JObj [(''error'', JStr ''Parent images not found'')]) 404, w))
   \<and> (\<not> path_exists image1 w \<or> \<not> path_exists image2 w
    \<longrightarrow> (fst (generate_from_two_images image1 image2 prompt out mdl w)
            = (if truthy (api_key w) then Inr False else Inl (SystemExit 1)))
        \<and> calls (snd (generate_from_two_images image1 image2 prompt out mdl w)) = calls w
        \<and> files (snd (generate_from_two_images image1 image2 prompt out mdl w)) = files w)
   \<and> (truthy (arg_input a) \<and> truthy (arg_input2 a)
        \<and> (\<not> path_exists (fmt (arg_input a)) w \<or> \<not> path_exists (fmt (arg_input2 a)) w)
    \<longrightarrow> fst (main a w) = Exit 1
        \<and> calls (snd (main a w)) = calls w
        \<and> files (snd (main a w)) = files w)"
proof (intro conjI impI)
  assume "\<not> path_exists (path_join IMAGES_DIR (py_str (dict_get data ''parent1_id'' JNull) @ ''.png'')) w
     \<or> \<not> path_exists (path_join IMAGES_DIR (py_str (dict_get data ''parent2_id'' JNull) @ ''.png'')) w"
  then show "breed_animals data w
          = (Reply (JObj [(''error'', JStr ''Parent images not found'')]) 404, w)"
    by (auto simp: breed_animals_def Let_def)
next
  assume m: "\<not> path_exists image1 w \<or> \<not> path_exists image2 w"
  then show "fst (generate_from_two_images image1 image2 prompt out mdl w)
            = (if truthy (api_key w) then Inr False else Inl (SystemExit 1))"
    by (auto simp: generate_from_two_images_def cli_get_client_def)
  from m show "calls (snd (generate_from_two_images image1 image2 prompt out mdl w)) = calls w"
    by (auto simp: generate_from_two_images_def cli_get_client_def print_def)
  from m show "files (snd (generate_from_two_images image1 image2 prompt out mdl w)) = files w"
    by (auto simp: generate_from_two_images_def cli_get_client_def print_def)
next
  assume m: "truthy (arg_input a) \<and> truthy (arg_input2 a)
        \<and> (\<not> path_exists (fmt (arg_input a)) w \<or> \<not> path_exists (fmt (arg_input2 a)) w)"
  then show "fst (main a w) = Exit 1"
    by (auto simp: main_def finish_def generate_from_two_images_def cli_get_client_def)
  from m show "calls (snd (main a w)) = calls w"
    by (auto simp: main_def finish_def generate_from_two_images_def cli_get_client_def print_def)
  from m show "files (snd (main a w)) = files w"
    by (auto simp: main_def finish_def generate_from_two_images_def cli_get_client_def print_def)
qed

theorem breed_missing_parent_no_call_witness:
  "\<not> path_exists (path_join IMAGES_DIR (py_str (dict_get orphan_breed ''parent2_id'' JNull) @ ''.png''))
       (demo_world (response_with None [good_item]))
   \<and> breed_animals orphan_breed (demo_world (response_with None [good_item]))
       = (Reply (JObj [(''error'', JStr ''Parent images not found'')]) 404,
          demo_world (response_with None [good_item]))
   \<and> calls (demo_world (response_with None [good_item])) = []
   \<and> \<not> path_exists (fmt (arg_input demo_args)) (demo_world (response_with None [good_item]))
   \<and> fst (main demo_args (demo_world (response_with None [good_item]))) = Exit 1
   \<and> calls (snd (main demo_args (demo_world (response_with None [good_item])))) = []"
proof -
  have h1: "\<not> path_exists (path_join IMAGES_DIR (py_str (dict_get orphan_breed ''parent2_id'' JNull) @ ''.png''))
               (demo_world (response_with None [good_item]))"
    by (simp add: path_exists_def path_join_def IMAGES_DIR_def dict_get_def orphan_breed_def
        demo_world_def startswith_def)
  have h2: "\<not> path_exists (fmt (arg_input demo_args))
               (demo_world (response_with None [good_item]))"
    by (simp add: path_exists_def fmt_def demo_args_def demo_world_def)
  have h3: "truthy (arg_input demo_args) \<and> truthy (arg_input2 demo_args)"
    by (simp add: demo_args_def)
  have h4: "calls (demo_world (response_with None [good_item])) = []"
    by (simp add: demo_world_def)
  from breed_missing_parent_no_call
         [where data = orphan_breed and w = "demo_world (response_with None [good_item])"
            and a = demo_args]
       h1 h2 h3 h4
  show ?thesis by simp
qed

section \<open>C4: what is on disk after a failure\<close>




section \<open>C5: the name a success returns\<close>



section \<open>C7: the breeding request\<close>



section \<open>C10: the default prompt of generation\<close>

text \<open>
  C10: when the body of a generate request has no \<open>prompt\<close> field, \<open>generate_animal\<close> does
  exactly what it does for the same body with \<open>prompt\<close> set to \<open>a cute fantasy animal\<close>, and
  the request it sends (when the credential is set) carries that default in its text.
\<close>

theorem generate_default_prompt:
  assumes "data ''prompt'' = None"
  shows "generate_animal data w
           = generate_animal (data(''prompt'' \<mapsto> JStr ''a cute fantasy animal'')) w
     \<and> calls (snd (generate_animal data w))
         = calls w
           @ (if truthy (api_key w)
              then [\<lparr>model = ''google/gemini-3-pro-image-preview'',
                     messages =
                       [(''user'',
                         Plain (''Generate an image of: a cute fantasy animal''
                                @ ''\<newline>\<newline>Make it detailed and visually appealing.''
                                @ ''\<newline>\<newline>Also give it a short creative name. ''
                                @ ''Respond with ONLY the name.''))]\<rparr>]
              else [])"
proof
  show "generate_animal data w
          = generate_animal (data(''prompt'' \<mapsto> JStr ''a cute fantasy animal'')) w"
    using assms by (simp add: generate_animal_def dict_get_def)
  show "calls (snd (generate_animal data w))
         = calls w
           @ (if truthy (api_key w)
              then [\<lparr>model = ''google/gemini-3-pro-image-preview'',
                     messages =
                       [(''user'',
                         Plain (''Generate an image of: a cute fantasy animal''
                                @ ''\<newline>\<newline>Make it detailed and visually appealing.''
                                @ ''\<newline>\<newline>Also give it a short creative name. ''
                                @ ''Respond with ONLY the name.''))]\<rparr>]
              else [])"
    using assms
    by (simp add: generate_animal_def dict_get_def get_client_def create_def generate_request_def
        full_prompt_def IMAGE_MODEL_def write_decoded_def Let_def
        split: sum.split prod.split option.split)
qed

theorem generate_default_prompt_witness:
  "no_fields ''prompt'' = None
   \<and> generate_animal no_fields (demo_world (response_with (Some ''Name'') [good_item]))
       = generate_animal (no_fields(''prompt'' \<mapsto> JStr ''a cute fantasy animal''))
           (demo_world (response_with (Some ''Name'') [good_item]))
   \<and> calls (snd (generate_animal no_fields
                   (demo_world (response_with (Some ''Name'') [good_item]))))
       = [\<lparr>model = ''google/gemini-3-pro-image-preview'',
           messages =
             [(''user'',
               Plain (''Generate an image of: a cute fantasy animal''
                      @ ''\<newline>\<newline>Make it detailed and visually appealing.''
                      @ ''\<newline>\<newline>Also give it a short creative name. ''
                      @ ''Respond with ONLY the name.''))]\<rparr>]"
proof -
  have h: "no_fields ''prompt'' = None"
    by (simp add: no_fields_def)
  have k: "truthy (api_key (demo_world (response_with (Some ''Name'') [good_item])))"
    "calls (demo_world (response_with (Some ''Name'') [good_item])) = []"
    by (simp_all add: demo_world_def)
  note t = generate_default_prompt
             [where data = no_fields
                and w = "demo_world (response_with (Some ''Name'') [good_item])", OF h]
  from t [THEN conjunct2] k
  have "calls (snd (generate_animal no_fields
                   (demo_world (response_with (Some ''Name'') [good_item]))))
       = [\<lparr>model = ''google/gemini-3-pro-image-preview'',
           messages =
             [(''user'',
               Plain (''Generate an image of: a cute fantasy animal''
                      @ ''\<newline>\<newline>Make it detailed and visually appealing.''
                      @ ''\<newline>\<newline>Also give it a short creative name. ''
                      @ ''Respond with ONLY the name.''))]\<rparr>]"
    by simp
  with h t [THEN conjunct1] show ?thesis by blast
qed

section \<open>C8: the MIME type of a path\<close>

lemma split_on_not_Nil [simp]: "split_on c s \<noteq> []"
  by (induction s) (auto split: list.splits)

lemma split_on_no_sep: "c \<notin> set s \<Longrightarrow> split_on c s = [s]"
  by (induction s) auto

lemma split_on_append: "split_on c (xs @ c # ys) = split_on c xs @ split_on c ys"
  by (induction xs) (auto split: list.splits)

lemma path_name_plain:
  "name \<noteq> [] \<Longrightarrow> name \<noteq> ''.'' \<Longrightarrow> CHR ''/'' \<notin> set name \<Longrightarrow> path_name name = name"
  by (simp add: path_name_def split_on_no_sep)

lemma path_name_in_dir:
  "name \<noteq> [] \<Longrightarrow> name \<noteq> ''.'' \<Longrightarrow> CHR ''/'' \<notin> set name \<Longrightarrow>
   path_name (dir @ ''/'' @ name) = name"
  by (simp add: path_name_def split_on_append split_on_no_sep)

lemma rfind_last_dot:
  "c \<notin> set ext \<Longrightarrow> rfind c (stem @ c # ext) = Some (length stem)"
proof -
  assume "c \<notin> set ext"
  then have "takeWhile (\<lambda>x. x \<noteq> c) (rev ext @ c # rev stem) = rev ext"
    by (auto simp: takeWhile_tail takeWhile_append2)
  then show ?thesis by (simp add: rfind_def)
qed

lemma suffix_of_name:
  assumes "stem \<noteq> []" "ext \<noteq> []" "CHR ''.'' \<notin> set ext"
    and "path_name p = stem @ ''.'' @ ext"
  shows "path_suffix p = ''.'' @ ext"
  using assms by (simp add: path_suffix_def rfind_last_dot)

lemma mime_cases:
  "get_image_mime_type p =
     (if lower (path_suffix p) = ''.jpg'' \<or> lower (path_suffix p) = ''.jpeg'' then ''image/jpeg''
      else if lower (path_suffix p) = ''.png'' then ''image/png''
      else if lower (path_suffix p) = ''.gif'' then ''image/gif''
      else if lower (path_suffix p) = ''.webp'' then ''image/webp''
      else ''image/jpeg'')"
  by (simp add: get_image_mime_type_def mime_types_def)

text \<open>
  C8: for every path, \<open>get_image_mime_type\<close> returns a value (it is a total function):
  \<open>image/jpeg\<close> for the extensions \<open>.jpg\<close> and \<open>.jpeg\<close>, \<open>image/png\<close> for \<open>.png\<close>, \<open>image/gif\<close> for
  \<open>.gif\<close>, \<open>image/webp\<close> for \<open>.webp\<close>, and \<open>image/jpeg\<close> for every other extension, where the
  extension is the lower-cased suffix of the path; and the suffix of a file name
  \<open>stem.ext\<close>, alone or behind a directory, is \<open>.ext\<close>.
\<close>

theorem mime_type_by_extension:
  "get_image_mime_type p =
     (if lower (path_suffix p) = ''.jpg'' \<or> lower (path_suffix p) = ''.jpeg'' then ''image/jpeg''
      else if lower (path_suffix p) = ''.png'' then ''image/png''
      else if lower (path_suffix p) = ''.gif'' then ''image/gif''
      else if lower (path_suffix p) = ''.webp'' then ''image/webp''
      else ''image/jpeg'')
   \<and> (stem \<noteq> [] \<and> ext \<noteq> [] \<and> CHR ''/'' \<notin> set stem \<and> CHR ''/'' \<notin> set ext
        \<and> CHR ''.'' \<notin> set ext
      \<longrightarrow> path_suffix (stem @ ''.'' @ ext) = ''.'' @ ext
          \<and> path_suffix (dir @ ''/'' @ stem @ ''.'' @ ext) = ''.'' @ ext)"
proof (intro conjI impI)
  show "get_image_mime_type p =
     (if lower (path_suffix p) = ''.jpg'' \<or> lower (path_suffix p) = ''.jpeg'' then ''image/jpeg''
      else if lower (path_suffix p) = ''.png'' then ''image/png''
      else if lower (path_suffix p) = ''.gif'' then ''image/gif''
      else if lower (path_suffix p) = ''.webp'' then ''image/webp''
      else ''image/jpeg'')"
    by (rule mime_cases)
next
  assume a: "stem \<noteq> [] \<and> ext \<noteq> [] \<and> CHR ''/'' \<notin> set stem \<and> CHR ''/'' \<notin> set ext
        \<and> CHR ''.'' \<notin> set ext"
  then have n: "stem @ CHR ''.'' # ext \<noteq> []" "stem @ CHR ''.'' # ext \<noteq> ''.''"
    "CHR ''/'' \<notin> set (stem @ CHR ''.'' # ext)"
    by (auto simp: append_eq_Cons_conv)
  have "path_name (stem @ CHR ''.'' # ext) = stem @ CHR ''.'' # ext"
    by (rule path_name_plain [OF n])
  with a show "path_suffix (stem @ ''.'' @ ext) = ''.'' @ ext"
    by (intro suffix_of_name [of stem]) simp_all
  have "path_name (dir @ ''/'' @ stem @ CHR ''.'' # ext) = stem @ CHR ''.'' # ext"
    by (rule path_name_in_dir [OF n])
  with a show "path_suffix (dir @ ''/'' @ stem @ ''.'' @ ext) = ''.'' @ ext"
    by (intro suffix_of_name [of stem]) simp_all
qed

theorem mime_type_by_extension_witness:
  "get_image_mime_type ''static/generated/creature.webp'' = ''image/webp''
   \<and> get_image_mime_type ''creature.bmp'' = ''image/jpeg''
   \<and> get_image_mime_type ''photos/Cat.JPEG'' = ''image/jpeg''"
proof -
  have l: "lower ''.webp'' = ''.webp''" "lower ''.bmp'' = ''.bmp''" "lower ''.JPEG'' = ''.jpeg''"
    by (simp_all add: lower_def lower_char_def byte_of_nat_def)
  have "path_suffix (''static/generated'' @ ''/'' @ ''creature'' @ ''.'' @ ''webp'') = ''.'' @ ''webp''"
    using mime_type_by_extension [where stem = "''creature''" and ext = "''webp''"
        and dir = "''static/generated''"]
    by simp
  moreover have "path_suffix (''creature'' @ ''.'' @ ''bmp'') = ''.'' @ ''bmp''"
    using mime_type_by_extension [where stem = "''creature''" and ext = "''bmp''"]
    by simp
  moreover have "path_suffix (''photos'' @ ''/'' @ ''Cat'' @ ''.'' @ ''JPEG'') = ''.'' @ ''JPEG''"
    using mime_type_by_extension [where stem = "''Cat''" and ext = "''JPEG''"
        and dir = "''photos''"]
    by simp
  ultimately show ?thesis
    using mime_type_by_extension [where p = "''static/generated/creature.webp''", THEN conjunct1]
      mime_type_by_extension [where p = "''creature.bmp''", THEN conjunct1]
      mime_type_by_extension [where p = "''photos/Cat.JPEG''", THEN conjunct1]
    by (simp add: l)
qed

section \<open>The JSON reader undoes the JSON writer\<close>


lemma byte_of_nat_of_char [simp]: "byte_of_nat (of_char c) = c"
proof -
  have "byte_of_nat n = char_of n" for n :: nat
    by (simp add: byte_of_nat_def char_of_def bit_iff_odd)
  then show ?thesis by simp
qed



lemma digit_table: "\<forall>k \<in> set [0..<10]. index_of (digit_chars ! k) digit_chars = Some k"
  unfolding digit_chars_def by code_simp

lemma digit_index: "k < 10 \<Longrightarrow> index_of (digit_chars ! k) digit_chars = Some k"
  using digit_table by simp


lemma show_nat_not_Nil [simp]: "show_nat n \<noteq> []"
  by (subst show_nat.simps) simp

lemma hd_show_nat_digit: "index_of (hd (show_nat n)) digit_chars \<noteq> None"
proof (induction n rule: show_nat.induct)
  case (1 n)
  show ?case
  proof (cases "n < 10")
    case True
    then show ?thesis by (simp add: show_nat.simps [of n] digit_index)
  next
    case False
    with 1 show ?thesis by (simp add: show_nat.simps [of n])
  qed
qed







lemma push_Some [simp]: "push x (Some (xs, r)) = Some (x # xs, r)"
  by (simp add: push_def)







lemma skip_ws_idem [simp]: "skip_ws (skip_ws s) = skip_ws s"
  by (simp add: skip_ws_def)

lemma skip_ws_indentation [simp]: "skip_ws (indentation l @ s) = skip_ws s"
  by (simp add: skip_ws_def indentation_def is_space_def dropWhile_append)

lemma skip_ws_newline [simp]: "skip_ws (CHR 0x0A # s) = skip_ws s"
  by (simp add: skip_ws_def is_space_def)

lemma skip_ws_keep: "\<not> is_space c \<Longrightarrow> skip_ws (c # s) = c # s"
  by (simp add: skip_ws_def)




lemma index_of_None_iff: "index_of x xs = None \<longleftrightarrow> x \<notin> set xs"
  by (induction xs) auto

lemma hd_show_nat_in: "hd (show_nat n) \<in> set digit_chars"
  using hd_show_nat_digit [of n] by (simp add: index_of_None_iff)

lemma dump_at_opens: "dump_at l v \<noteq> [] \<and> opens_value (hd (dump_at l v))"
proof (cases v)
  case (JInt i)
  then show ?thesis
    using hd_show_nat_in [of "nat i"]
    by (auto simp: opens_value_def show_int_def digit_chars_def)
qed (auto simp: opens_value_def json_string_def)

lemma opens_not_space: "opens_value c \<Longrightarrow> \<not> is_space c"
  by (auto simp: opens_value_def is_space_def)

lemma skip_ws_dump [simp]: "skip_ws (dump_at l v @ s) = dump_at l v @ s"
  using dump_at_opens [of l v]
  by (cases "dump_at l v") (auto simp: skip_ws_keep opens_not_space)


lemma ends_number_sep [simp]:
  "ends_number (CHR '','' # s)" "ends_number (CHR 0x0A # s)" "ends_number []"
  by (simp_all add: ends_number_def digit_chars_def)




lemma join_lines_Cons:
  "join_lines sep (x # xs) = x @ (if xs = [] then [] else sep @ join_lines sep xs)"
  by (cases xs) simp_all

lemma skip_ws_joined [simp]:
  "skip_ws (join_lines sep (dump_at l y # ys) @ t) = join_lines sep (dump_at l y # ys) @ t"
  by (simp add: join_lines_Cons del: join_lines.simps)



lemma skip_ws_space [simp]: "skip_ws (CHR '' '' # s) = skip_ws s"
  by (simp add: skip_ws_def is_space_def)











section \<open>C6: saving and loading the game state\<close>



end
